theory Spec2Isabelle
  imports Complex_Main
begin

chapter \<open>The model\<close>

section \<open>Errors, values and time\<close>

text \<open>
  Exceptions of the library (\<^verbatim>\<open>core/exceptions.py\<close>) and the Python built-ins the
  modelled code can raise. Every operation returns its outcome together with the state
  it leaves behind, because a Python method that raises keeps the mutations it made
  before raising. A cache value is \<open>'v option\<close>: \<open>None\<close> is Python's \<^verbatim>\<open>None\<close>, which
  the code uses both as a legal value and as the "absent" answer. Time stamps and
  durations (seconds) are real numbers; every call is given the time \<open>now\<close> at which it
  runs, and each reading of the clock inside the call returns that time.
\<close>

datatype error =
    BackendError
  | StrategyError
  | CacheConfigurationError
  | ValueError
  | RuntimeError
  | StopIteration
  | IndexError
  | OtherError

type_synonym ('a, 's) result = "(error + 'a) \<times> 's"

section \<open>Cache metadata (core/types.py)\<close>

record CacheMetadata =
  created_at :: real
  expires_at :: "real option"
  access_count :: int
  last_accessed :: real
  tags :: "string list"

text \<open>The constructor call \<^verbatim>\<open>CacheMetadata(expires_at=..., tags=...)\<close> made at time \<open>now\<close>.\<close>

definition CacheMetadata_init :: "real \<Rightarrow> real option \<Rightarrow> string list \<Rightarrow> CacheMetadata" where
  "CacheMetadata_init now ex tgs =
     \<lparr>created_at = now, expires_at = ex, access_count = 0, last_accessed = now, tags = tgs\<rparr>"

definition is_expired :: "CacheMetadata \<Rightarrow> real \<Rightarrow> bool" where
  "is_expired m now = (case expires_at m of None \<Rightarrow> False | Some e \<Rightarrow> now \<ge> e)"

definition update_access :: "CacheMetadata \<Rightarrow> real \<Rightarrow> CacheMetadata" where
  "update_access m now = m\<lparr>access_count := access_count m + 1, last_accessed := now\<rparr>"

section \<open>The metadata substrate (backends/base.py, core/backend.py)\<close>

text \<open>
  \<^verbatim>\<open>BaseBackend\<close> leaves five primitives to its subclasses. They are the fields of
  \<open>backend_impl\<close>; each works on the subclass's own store \<open>'s\<close> and may raise.
\<close>

record ('k, 'v, 's) backend_impl =
  get_impl :: "'k \<Rightarrow> 's \<Rightarrow> ('v option, 's) result"
  set_impl :: "'k \<Rightarrow> 'v option \<Rightarrow> real option \<Rightarrow> 's \<Rightarrow> (bool, 's) result"
  delete_impl :: "'k \<Rightarrow> 's \<Rightarrow> (bool, 's) result"
  exists_impl :: "'k \<Rightarrow> 's \<Rightarrow> (bool, 's) result"
  clear_impl :: "'s \<Rightarrow> (bool, 's) result"

record ('k, 's) BaseBackend =
  closed_flag :: bool
  enable_metadata :: bool
  metadata :: "'k \<rightharpoonup> CacheMetadata"
  store :: 's

definition BaseBackend_init :: "bool \<Rightarrow> 's \<Rightarrow> ('k, 's) BaseBackend" where
  "BaseBackend_init em s =
     \<lparr>closed_flag = False, enable_metadata = em, metadata = Map.empty, store = s\<rparr>"

definition get_metadata :: "('k, 's) BaseBackend \<Rightarrow> 'k \<Rightarrow> CacheMetadata option" where
  "get_metadata b key = (if \<not> enable_metadata b then None else metadata b key)"

definition set_metadata :: "('k, 's) BaseBackend \<Rightarrow> 'k \<Rightarrow> real option \<Rightarrow> real \<Rightarrow> ('k, 's) BaseBackend" where
  "set_metadata b key ttl now =
     (if \<not> enable_metadata b then b
      else
        let ex = (case ttl of None \<Rightarrow> None | Some t \<Rightarrow> Some (now + t)) in
        case metadata b key of
          Some m \<Rightarrow> b\<lparr>metadata := (metadata b)(key \<mapsto> m\<lparr>expires_at := ex\<rparr>)\<rparr>
        | None \<Rightarrow> b\<lparr>metadata := (metadata b)(key \<mapsto> CacheMetadata_init now ex [])\<rparr>)"

definition update_access_metadata :: "('k, 's) BaseBackend \<Rightarrow> 'k \<Rightarrow> real \<Rightarrow> ('k, 's) BaseBackend" where
  "update_access_metadata b key now =
     (if enable_metadata b then
        (case metadata b key of
           Some m \<Rightarrow> b\<lparr>metadata := (metadata b)(key \<mapsto> update_access m now)\<rparr>
         | None \<Rightarrow> b)
      else b)"

definition delete_metadata :: "('k, 's) BaseBackend \<Rightarrow> 'k \<Rightarrow> ('k, 's) BaseBackend" where
  "delete_metadata b key =
     (if enable_metadata b then b\<lparr>metadata := (metadata b)(key := None)\<rparr> else b)"

definition clear_metadata :: "('k, 's) BaseBackend \<Rightarrow> ('k, 's) BaseBackend" where
  "clear_metadata b = (if enable_metadata b then b\<lparr>metadata := Map.empty\<rparr> else b)"

definition BaseBackend_is_expired :: "('k, 's) BaseBackend \<Rightarrow> 'k \<Rightarrow> real \<Rightarrow> bool" where
  "BaseBackend_is_expired b key now =
     (if \<not> enable_metadata b then False
      else case metadata b key of None \<Rightarrow> False | Some m \<Rightarrow> is_expired m now)"

definition BaseBackend_delete ::
  "('k, 'v, 's) backend_impl \<Rightarrow> ('k, 's) BaseBackend \<Rightarrow> 'k \<Rightarrow> (bool, ('k, 's) BaseBackend) result" where
  "BaseBackend_delete I b key =
     (if closed_flag b then (Inl BackendError, b)
      else case delete_impl I key (store b) of
        (Inl e, s) \<Rightarrow> (Inl e, b\<lparr>store := s\<rparr>)
      | (Inr r, s) \<Rightarrow> (Inr r, if r then delete_metadata (b\<lparr>store := s\<rparr>) key else b\<lparr>store := s\<rparr>))"

definition BaseBackend_get ::
  "('k, 'v, 's) backend_impl \<Rightarrow> ('k, 's) BaseBackend \<Rightarrow> 'k \<Rightarrow> real
     \<Rightarrow> ('v option, ('k, 's) BaseBackend) result" where
  "BaseBackend_get I b key now =
     (if closed_flag b then (Inl BackendError, b)
      else if BaseBackend_is_expired b key now then
        (case BaseBackend_delete I b key of
           (Inl e, b') \<Rightarrow> (Inl e, b')
         | (Inr r, b') \<Rightarrow> (Inr None, b'))
      else case get_impl I key (store b) of
        (Inl e, s) \<Rightarrow> (Inl e, b\<lparr>store := s\<rparr>)
      | (Inr v, s) \<Rightarrow>
          (Inr v, if v \<noteq> None then update_access_metadata (b\<lparr>store := s\<rparr>) key now
                  else b\<lparr>store := s\<rparr>))"

definition BaseBackend_set ::
  "('k, 'v, 's) backend_impl \<Rightarrow> ('k, 's) BaseBackend \<Rightarrow> 'k \<Rightarrow> 'v option \<Rightarrow> real option \<Rightarrow> real
     \<Rightarrow> (bool, ('k, 's) BaseBackend) result" where
  "BaseBackend_set I b key v ttl now =
     (if closed_flag b then (Inl BackendError, b)
      else case set_impl I key v ttl (store b) of
        (Inl e, s) \<Rightarrow> (Inl e, b\<lparr>store := s\<rparr>)
      | (Inr r, s) \<Rightarrow> (Inr r, if r then set_metadata (b\<lparr>store := s\<rparr>) key ttl now else b\<lparr>store := s\<rparr>))"

definition BaseBackend_clear ::
  "('k, 'v, 's) backend_impl \<Rightarrow> ('k, 's) BaseBackend \<Rightarrow> (bool, ('k, 's) BaseBackend) result" where
  "BaseBackend_clear I b =
     (if closed_flag b then (Inl BackendError, b)
      else case clear_impl I (store b) of
        (Inl e, s) \<Rightarrow> (Inl e, b\<lparr>store := s\<rparr>)
      | (Inr r, s) \<Rightarrow> (Inr r, if r then clear_metadata (b\<lparr>store := s\<rparr>) else b\<lparr>store := s\<rparr>))"

definition BaseBackend_exists ::
  "('k, 'v, 's) backend_impl \<Rightarrow> ('k, 's) BaseBackend \<Rightarrow> 'k \<Rightarrow> real
     \<Rightarrow> (bool, ('k, 's) BaseBackend) result" where
  "BaseBackend_exists I b key now =
     (if closed_flag b then (Inl BackendError, b)
      else if BaseBackend_is_expired b key now then
        (case BaseBackend_delete I b key of
           (Inl e, b') \<Rightarrow> (Inl e, b')
         | (Inr r, b') \<Rightarrow> (Inr False, b'))
      else case exists_impl I key (store b) of
        (Inl e, s) \<Rightarrow> (Inl e, b\<lparr>store := s\<rparr>)
      | (Inr r, s) \<Rightarrow> (Inr r, b\<lparr>store := s\<rparr>))"

definition BaseBackend_close :: "('k, 's) BaseBackend \<Rightarrow> ('k, 's) BaseBackend" where
  "BaseBackend_close b = clear_metadata (b\<lparr>closed_flag := True\<rparr>)"

section \<open>The in-memory backend (backends/memory.py)\<close>

text \<open>The store is a Python dict from keys to values; a stored value may be \<^verbatim>\<open>None\<close>.\<close>

type_synonym ('k, 'v) memory_store = "'k \<rightharpoonup> 'v option"

definition Memory_get_impl :: "'k \<Rightarrow> ('k, 'v) memory_store \<Rightarrow> ('v option, ('k, 'v) memory_store) result" where
  "Memory_get_impl key s = (Inr (case s key of None \<Rightarrow> None | Some v \<Rightarrow> v), s)"

definition Memory_set_impl ::
  "'k \<Rightarrow> 'v option \<Rightarrow> real option \<Rightarrow> ('k, 'v) memory_store \<Rightarrow> (bool, ('k, 'v) memory_store) result" where
  "Memory_set_impl key v ttl s = (Inr True, s(key \<mapsto> v))"

definition Memory_delete_impl :: "'k \<Rightarrow> ('k, 'v) memory_store \<Rightarrow> (bool, ('k, 'v) memory_store) result" where
  "Memory_delete_impl key s = (if s key \<noteq> None then (Inr True, s(key := None)) else (Inr False, s))"

definition Memory_exists_impl :: "'k \<Rightarrow> ('k, 'v) memory_store \<Rightarrow> (bool, ('k, 'v) memory_store) result" where
  "Memory_exists_impl key s = (Inr (s key \<noteq> None), s)"

definition Memory_clear_impl :: "('k, 'v) memory_store \<Rightarrow> (bool, ('k, 'v) memory_store) result" where
  "Memory_clear_impl s = (Inr True, Map.empty)"

definition MemoryBackend :: "('k, 'v, ('k, 'v) memory_store) backend_impl" where
  "MemoryBackend =
     \<lparr>get_impl = Memory_get_impl, set_impl = Memory_set_impl, delete_impl = Memory_delete_impl,
      exists_impl = Memory_exists_impl, clear_impl = Memory_clear_impl\<rparr>"

definition MemoryBackend_init :: "bool \<Rightarrow> ('k, ('k, 'v) memory_store) BaseBackend" where
  "MemoryBackend_init em = BaseBackend_init em Map.empty"

section \<open>The file backend (backends/file_backend.py)\<close>

text \<open>
  The cache directory holds one \<^verbatim>\<open>.cache\<close> file per stored key, with the serialized value,
  and a \<^verbatim>\<open>.meta\<close> file beside it when a ttl was given; both are named after the sanitized
  key. The directory is modelled by the two families of files, indexed by that name; the
  file system is taken to work, and deserializing to give back the value serialized.
  \<^verbatim>\<open>hash_key\<close> (SHA-256 of the key, used for names longer than 200 characters) is a
  parameter.
\<close>

record 'v file_store =
  cache_files :: "string \<rightharpoonup> 'v option"
  meta_files :: "string \<rightharpoonup> real"

definition get_file_path :: "(string \<Rightarrow> string) \<Rightarrow> string \<Rightarrow> string" where
  "get_file_path hash_key key =
     (let key_str = map (\<lambda>c. if c = CHR ''/'' then CHR ''_'' else c) key;
          key_str = map (\<lambda>c. if c = CHR 0x5C then CHR ''_'' else c) key_str
      in if length key_str > 200 then hash_key key_str else key_str)"

definition File_get_impl :: "(string \<Rightarrow> string) \<Rightarrow> string \<Rightarrow> 'v file_store \<Rightarrow> ('v option, 'v file_store) result" where
  "File_get_impl hash_key key s =
     (let file_path = get_file_path hash_key key in
      case cache_files s file_path of
        None \<Rightarrow> (Inr None, s)
      | Some data \<Rightarrow> (Inr data, s))"

definition File_set_impl ::
  "(string \<Rightarrow> string) \<Rightarrow> bool \<Rightarrow> string \<Rightarrow> 'v option \<Rightarrow> real option \<Rightarrow> 'v file_store
     \<Rightarrow> (bool, 'v file_store) result" where
  "File_set_impl hash_key em key v ttl s =
     (let file_path = get_file_path hash_key key;
          s1 = s\<lparr>cache_files := (cache_files s)(file_path \<mapsto> v)\<rparr>
      in case ttl of
           Some t \<Rightarrow> if em then (Inr True, s1\<lparr>meta_files := (meta_files s1)(file_path \<mapsto> t)\<rparr>)
                     else (Inr True, s1)
         | None \<Rightarrow> (Inr True, s1))"

definition File_delete_impl :: "(string \<Rightarrow> string) \<Rightarrow> string \<Rightarrow> 'v file_store \<Rightarrow> (bool, 'v file_store) result" where
  "File_delete_impl hash_key key s =
     (let file_path = get_file_path hash_key key;
          deleted = (cache_files s file_path \<noteq> None)
      in (Inr deleted,
          s\<lparr>cache_files := (cache_files s)(file_path := None),
            meta_files := (meta_files s)(file_path := None)\<rparr>))"

definition File_exists_impl :: "(string \<Rightarrow> string) \<Rightarrow> string \<Rightarrow> 'v file_store \<Rightarrow> (bool, 'v file_store) result" where
  "File_exists_impl hash_key key s = (Inr (cache_files s (get_file_path hash_key key) \<noteq> None), s)"

definition File_clear_impl :: "'v file_store \<Rightarrow> (bool, 'v file_store) result" where
  "File_clear_impl s = (Inr True, s\<lparr>cache_files := Map.empty, meta_files := Map.empty\<rparr>)"

definition FileBackend :: "(string \<Rightarrow> string) \<Rightarrow> bool \<Rightarrow> (string, 'v, 'v file_store) backend_impl" where
  "FileBackend hash_key em =
     \<lparr>get_impl = File_get_impl hash_key, set_impl = File_set_impl hash_key em,
      delete_impl = File_delete_impl hash_key, exists_impl = File_exists_impl hash_key,
      clear_impl = File_clear_impl\<rparr>"

definition FileBackend_init :: "bool \<Rightarrow> (string, 'v file_store) BaseBackend" where
  "FileBackend_init em = BaseBackend_init em \<lparr>cache_files = Map.empty, meta_files = Map.empty\<rparr>"

section \<open>Runs of backend calls\<close>

text \<open>Calls made on the backend itself, each at its time; \<^verbatim>\<open>close\<close> is not among them.\<close>

datatype ('k, 'v) backend_call =
    BGet 'k
  | BSet 'k "'v option" "real option"
  | BDelete 'k
  | BExists 'k
  | BClear

fun backend_step ::
  "('k, 'v, 's) backend_impl \<Rightarrow> ('k, 's) BaseBackend \<Rightarrow> real \<times> ('k, 'v) backend_call \<Rightarrow> ('k, 's) BaseBackend" where
  "backend_step I b (now, BGet key) = snd (BaseBackend_get I b key now)"
| "backend_step I b (now, BSet key v ttl) = snd (BaseBackend_set I b key v ttl now)"
| "backend_step I b (now, BDelete key) = snd (BaseBackend_delete I b key)"
| "backend_step I b (now, BExists key) = snd (BaseBackend_exists I b key now)"
| "backend_step I b (now, BClear) = snd (BaseBackend_clear I b)"

definition backend_run ::
  "('k, 'v, 's) backend_impl \<Rightarrow> ('k, 's) BaseBackend \<Rightarrow> (real \<times> ('k, 'v) backend_call) list \<Rightarrow> ('k, 's) BaseBackend" where
  "backend_run I b calls = foldl (backend_step I) b calls"

section \<open>TTLStrategy (strategies/ttl.py)\<close>

record TTLStrategy =
  default_ttl_s :: "real option"

definition TTLStrategy_init :: "real option \<Rightarrow> error + TTLStrategy" where
  "TTLStrategy_init d =
     (case d of
        Some t \<Rightarrow> if t \<le> 0 then Inl StrategyError else Inr \<lparr>default_ttl_s = d\<rparr>
      | None \<Rightarrow> Inr \<lparr>default_ttl_s = d\<rparr>)"

definition TTLStrategy_set ::
  "('k, 'v, 's) backend_impl \<Rightarrow> TTLStrategy \<Rightarrow> ('k, 's) BaseBackend \<Rightarrow> 'k \<Rightarrow> 'v option
     \<Rightarrow> real option \<Rightarrow> real \<Rightarrow> (bool, ('k, 's) BaseBackend) result" where
  "TTLStrategy_set I st b key v ttl now =
     (let effective_ttl = (case ttl of Some t \<Rightarrow> Some t | None \<Rightarrow> default_ttl_s st) in
      case effective_ttl of
        None \<Rightarrow> (Inl StrategyError, b)
      | Some e \<Rightarrow>
          if e \<le> 0 then (Inl StrategyError, b)
          else BaseBackend_set I b key v (Some e) now)"

text \<open>
  The spec's effective ttl: the per-call ttl if given, otherwise the configured default.
\<close>

definition effective_ttl_spec :: "real option \<Rightarrow> real option \<Rightarrow> real option" where
  "effective_ttl_spec ttl d = (if ttl \<noteq> None then ttl else d)"

section \<open>CacheManager (core/cache.py, core/config.py)\<close>

record CacheConfig =
  default_ttl :: "real option"
  key_prefix :: string
  namespace :: string
  serialization_method :: string

definition CacheConfig_post_init :: "CacheConfig \<Rightarrow> error + CacheConfig" where
  "CacheConfig_post_init c =
     (if (case default_ttl c of None \<Rightarrow> False | Some t \<Rightarrow> t \<le> 0) then Inl CacheConfigurationError
      else if serialization_method c \<notin> {''pickle'', ''json'', ''msgpack''} then Inl CacheConfigurationError
      else Inr c)"

fun join :: "string \<Rightarrow> string list \<Rightarrow> string" where
  "join sep [] = []"
| "join sep [p] = p"
| "join sep (p # q # ps) = p @ sep @ join sep (q # ps)"

definition make_key :: "CacheConfig \<Rightarrow> string \<Rightarrow> string" where
  "make_key c key =
     (let parts = [];
          parts = (if namespace c \<noteq> [] then parts @ [namespace c] else parts);
          parts = (if key_prefix c \<noteq> [] then parts @ [key_prefix c] else parts);
          parts = parts @ [key]
      in join '':'' parts)"

text \<open>Python's \<^verbatim>\<open>ttl or default\<close>: \<^verbatim>\<open>None\<close> and zero are falsy.\<close>

definition ttl_or :: "real option \<Rightarrow> real option \<Rightarrow> real option" where
  "ttl_or ttl d = (case ttl of None \<Rightarrow> d | Some t \<Rightarrow> if t = 0 then d else Some t)"

text \<open>
  The manager holds any object with the strategy protocol; its \<^verbatim>\<open>set\<close> is the
  parameter \<open>strategy_set\<close>, called as \<^verbatim>\<open>strategy.set(backend, full_key, value, ttl)\<close>
  on the state \<open>st\<close> of strategy and backend.
\<close>

definition CacheManager_set ::
  "CacheConfig \<Rightarrow> (string \<Rightarrow> 'v \<Rightarrow> real option \<Rightarrow> 'st \<Rightarrow> 'r) \<Rightarrow> string \<Rightarrow> 'v \<Rightarrow> real option \<Rightarrow> 'st \<Rightarrow> 'r" where
  "CacheManager_set c strategy_set key v ttl st =
     (let full_key = make_key c key;
          ttl = ttl_or ttl (default_ttl c)
      in strategy_set full_key v ttl st)"

section \<open>Write callbacks\<close>

text \<open>
  A write callback \<^verbatim>\<open>write_callback(key, value)\<close> writes to the authoritative store, a
  state \<open>'d\<close> of its own, and may raise. Calling an absent callback raises (a
  \<^verbatim>\<open>TypeError\<close> in Python).
\<close>

type_synonym ('k, 'v, 'd) write_callback = "'k \<Rightarrow> 'v option \<Rightarrow> 'd \<Rightarrow> (unit, 'd) result"

definition call_callback :: "('k, 'v, 'd) write_callback option \<Rightarrow> 'k \<Rightarrow> 'v option \<Rightarrow> 'd \<Rightarrow> (unit, 'd) result" where
  "call_callback cb key v d = (case cb of None \<Rightarrow> (Inl OtherError, d) | Some f \<Rightarrow> f key v d)"

section \<open>WriteThroughStrategy (strategies/write_through.py)\<close>

record ('k, 'v, 'd) WriteThroughStrategy =
  write_callback_wt :: "('k, 'v, 'd) write_callback option"

definition WriteThrough_set ::
  "('k, 'v, 's) backend_impl \<Rightarrow> ('k, 'v, 'd) WriteThroughStrategy \<Rightarrow> 'd \<Rightarrow> ('k, 's) BaseBackend
     \<Rightarrow> 'k \<Rightarrow> 'v option \<Rightarrow> real option \<Rightarrow> real \<Rightarrow> (bool, 'd \<times> ('k, 's) BaseBackend) result" where
  "WriteThrough_set I st d b key v ttl now =
     (if write_callback_wt st \<noteq> None then
        (case call_callback (write_callback_wt st) key v d of
           (Inl e, d') \<Rightarrow> (Inl RuntimeError, d', b)
         | (Inr u, d') \<Rightarrow>
             (case BaseBackend_set I b key v ttl now of (r, b') \<Rightarrow> (r, d', b')))
      else (case BaseBackend_set I b key v ttl now of (r, b') \<Rightarrow> (r, d, b')))"

section \<open>WriteBackStrategy (strategies/write_back.py)\<close>

text \<open>
  The pending queue is a Python dict, which keeps insertion order: an association list
  in which assigning to a present key replaces its value in place and assigning to a new
  key appends.
\<close>

fun dict_set :: "('k \<times> 'a) list \<Rightarrow> 'k \<Rightarrow> 'a \<Rightarrow> ('k \<times> 'a) list" where
  "dict_set [] key v = [(key, v)]"
| "dict_set ((k', v') # d) key v = (if k' = key then (key, v) # d else (k', v') # dict_set d key v)"

record ('k, 'v, 'd) WriteBackStrategy =
  write_callback_wb :: "('k, 'v, 'd) write_callback option"
  batch_size :: int
  flush_interval :: real
  write_queue :: "('k \<times> 'v option) list"
  last_flush :: real


text \<open>The loop of \<^verbatim>\<open>_flush\<close> over the queue's copy: a failed entry goes back into the queue.\<close>

fun flush_loop ::
  "('k, 'v, 'd) write_callback option \<Rightarrow> ('k \<times> 'v option) list \<Rightarrow> ('k \<times> 'v option) list \<Rightarrow> 'd
     \<Rightarrow> ('k \<times> 'v option) list \<times> 'd" where
  "flush_loop cb [] q d = (q, d)"
| "flush_loop cb ((key, v) # rest) q d =
     (case call_callback cb key v d of
        (Inl e, d') \<Rightarrow> flush_loop cb rest (dict_set q key v) d'
      | (Inr u, d') \<Rightarrow> flush_loop cb rest q d')"

definition WriteBack_flush ::
  "('k, 'v, 'd) WriteBackStrategy \<Rightarrow> 'd \<Rightarrow> real \<Rightarrow> ('k, 'v, 'd) WriteBackStrategy \<times> 'd" where
  "WriteBack_flush st d now =
     (if write_queue st = [] then (st, d)
      else
        let queue_copy = write_queue st;
            st1 = st\<lparr>write_queue := [], last_flush := now\<rparr>
        in case flush_loop (write_callback_wb st1) queue_copy (write_queue st1) d of
             (q, d') \<Rightarrow> (st1\<lparr>write_queue := q\<rparr>, d'))"

definition WriteBack_maybe_flush ::
  "('k, 'v, 'd) WriteBackStrategy \<Rightarrow> 'd \<Rightarrow> real \<Rightarrow> ('k, 'v, 'd) WriteBackStrategy \<times> 'd" where
  "WriteBack_maybe_flush st d now =
     (let should_flush = (int (length (write_queue st)) \<ge> batch_size st
                          \<or> now - last_flush st \<ge> flush_interval st)
      in if should_flush \<and> write_callback_wb st \<noteq> None then WriteBack_flush st d now else (st, d))"

definition WriteBack_set ::
  "('k, 'v, 's) backend_impl \<Rightarrow> ('k, 'v, 'd) WriteBackStrategy \<Rightarrow> 'd \<Rightarrow> ('k, 's) BaseBackend
     \<Rightarrow> 'k \<Rightarrow> 'v option \<Rightarrow> real option \<Rightarrow> real
     \<Rightarrow> (bool, ('k, 'v, 'd) WriteBackStrategy \<times> 'd \<times> ('k, 's) BaseBackend) result" where
  "WriteBack_set I st d b key v ttl now =
     (case BaseBackend_set I b key v ttl now of
        (Inl e, b') \<Rightarrow> (Inl e, st, d, b')
      | (Inr r, b') \<Rightarrow>
          if write_callback_wb st \<noteq> None \<and> r then
            (case WriteBack_maybe_flush (st\<lparr>write_queue := dict_set (write_queue st) key v\<rparr>) d now of
               (st', d') \<Rightarrow> (Inr r, st', d', b'))
          else (Inr r, st, d, b'))"

section \<open>Eviction strategies (strategies/eviction.py)\<close>

text \<open>
  A miss callback \<^verbatim>\<open>miss_callback(key)\<close> computes a value or raises. A strategy method
  returns its outcome, the strategy's own state and the backend.
\<close>

type_synonym ('k, 'v) miss_callback = "'k \<Rightarrow> error + 'v option"

type_synonym ('a, 'st, 'k, 's) sresult = "(error + 'a) \<times> 'st \<times> ('k, 's) BaseBackend"

subsection \<open>LRU\<close>

text \<open>The \<^verbatim>\<open>OrderedDict\<close> of keys, least recently used first.\<close>

record 'k LRUEvictionStrategy =
  max_size_lru :: int
  access_order :: "'k list"


definition LRU_set ::
  "('k, 'v, 's) backend_impl \<Rightarrow> 'k LRUEvictionStrategy \<Rightarrow> ('k, 's) BaseBackend \<Rightarrow> 'k \<Rightarrow> 'v option
     \<Rightarrow> real option \<Rightarrow> real \<Rightarrow> (bool, 'k LRUEvictionStrategy, 'k, 's) sresult" where
  "LRU_set I st b key v ttl now =
     (case (if key \<notin> set (access_order st) \<and> int (length (access_order st)) \<ge> max_size_lru st then
              (case access_order st of
                 [] \<Rightarrow> (Inl StopIteration, st, b)
               | lru_key # rest \<Rightarrow>
                   (case BaseBackend_delete I b lru_key of
                      (Inl e, b') \<Rightarrow> (Inl e, st, b')
                    | (Inr r, b') \<Rightarrow>
                        (Inr (), st\<lparr>access_order := removeAll lru_key (access_order st)\<rparr>, b')))
            else (Inr (), st, b)) of
        (Inl e, st1, b1) \<Rightarrow> (Inl e, st1, b1)
      | (Inr u, st1, b1) \<Rightarrow>
          (case BaseBackend_set I b1 key v ttl now of
             (r, b2) \<Rightarrow> (r, st1\<lparr>access_order := removeAll key (access_order st1) @ [key]\<rparr>, b2)))"

definition LRU_get ::
  "('k, 'v, 's) backend_impl \<Rightarrow> 'k LRUEvictionStrategy \<Rightarrow> ('k, 's) BaseBackend \<Rightarrow> 'k
     \<Rightarrow> ('k, 'v) miss_callback option \<Rightarrow> real \<Rightarrow> ('v option, 'k LRUEvictionStrategy, 'k, 's) sresult" where
  "LRU_get I st b key miss_callback now =
     (case BaseBackend_get I b key now of
        (Inl e, b') \<Rightarrow> (Inl e, st, b')
      | (Inr v, b') \<Rightarrow>
          if v \<noteq> None then
            (Inr v,
             (if key \<in> set (access_order st)
              then st\<lparr>access_order := removeAll key (access_order st) @ [key]\<rparr>
              else st\<lparr>access_order := access_order st @ [key]\<rparr>),
             b')
          else (case miss_callback of
                  None \<Rightarrow> (Inr v, st, b')
                | Some f \<Rightarrow>
                    (case f key of
                       Inl e \<Rightarrow> (Inl e, st, b')
                     | Inr v' \<Rightarrow>
                         if v' \<noteq> None then
                           (case LRU_set I st b' key v' None now of
                              (Inl e, st', b'') \<Rightarrow> (Inl e, st', b'')
                            | (Inr r, st', b'') \<Rightarrow> (Inr v', st', b''))
                         else (Inr v', st, b'))))"

definition LRU_delete ::
  "('k, 'v, 's) backend_impl \<Rightarrow> 'k LRUEvictionStrategy \<Rightarrow> ('k, 's) BaseBackend \<Rightarrow> 'k
     \<Rightarrow> (bool, 'k LRUEvictionStrategy, 'k, 's) sresult" where
  "LRU_delete I st b key =
     (case BaseBackend_delete I b key of
        (Inl e, b') \<Rightarrow> (Inl e, st, b')
      | (Inr r, b') \<Rightarrow>
          (Inr r, (if r then st\<lparr>access_order := removeAll key (access_order st)\<rparr> else st), b'))"

definition LRU_clear ::
  "('k, 'v, 's) backend_impl \<Rightarrow> 'k LRUEvictionStrategy \<Rightarrow> ('k, 's) BaseBackend
     \<Rightarrow> (bool, 'k LRUEvictionStrategy, 'k, 's) sresult" where
  "LRU_clear I st b =
     (case BaseBackend_clear I b of (r, b') \<Rightarrow> (r, st\<lparr>access_order := []\<rparr>, b'))"

subsection \<open>LFU\<close>

text \<open>
  The dict of access counts, in insertion order. \<^verbatim>\<open>min(items, key=...)\<close> walks the items
  in that order and keeps the first one with the smallest count.
\<close>

record 'k LFUEvictionStrategy =
  max_size_lfu :: int
  access_counts :: "('k \<times> int) list"

definition LFU_init :: "int \<Rightarrow> error + 'k LFUEvictionStrategy" where
  "LFU_init n = (if n \<le> 0 then Inl ValueError else Inr \<lparr>max_size_lfu = n, access_counts = []\<rparr>)"

fun min_item :: "('k \<times> int) \<Rightarrow> ('k \<times> int) list \<Rightarrow> ('k \<times> int)" where
  "min_item best [] = best"
| "min_item best (x # xs) = min_item (if snd x < snd best then x else best) xs"

definition dict_get :: "('k \<times> 'a) list \<Rightarrow> 'k \<Rightarrow> 'a \<Rightarrow> 'a" where
  "dict_get d key dflt = (case map_of d key of None \<Rightarrow> dflt | Some v \<Rightarrow> v)"

definition dict_del :: "('k \<times> 'a) list \<Rightarrow> 'k \<Rightarrow> ('k \<times> 'a) list" where
  "dict_del d key = filter (\<lambda>p. fst p \<noteq> key) d"

definition LFU_set ::
  "('k, 'v, 's) backend_impl \<Rightarrow> 'k LFUEvictionStrategy \<Rightarrow> ('k, 's) BaseBackend \<Rightarrow> 'k \<Rightarrow> 'v option
     \<Rightarrow> real option \<Rightarrow> real \<Rightarrow> (bool, 'k LFUEvictionStrategy, 'k, 's) sresult" where
  "LFU_set I st b key v ttl now =
     (case (if key \<notin> set (map fst (access_counts st))
               \<and> int (length (access_counts st)) \<ge> max_size_lfu st then
              (case access_counts st of
                 [] \<Rightarrow> (Inl ValueError, st, b)
               | item # items \<Rightarrow>
                   let lfu_key = fst (min_item item items) in
                   (case BaseBackend_delete I b lfu_key of
                      (Inl e, b') \<Rightarrow> (Inl e, st, b')
                    | (Inr r, b') \<Rightarrow>
                        (Inr (), st\<lparr>access_counts := dict_del (access_counts st) lfu_key\<rparr>, b')))
            else (Inr (), st, b)) of
        (Inl e, st1, b1) \<Rightarrow> (Inl e, st1, b1)
      | (Inr u, st1, b1) \<Rightarrow>
          let st2 = (if key \<notin> set (map fst (access_counts st1))
                     then st1\<lparr>access_counts := access_counts st1 @ [(key, 0)]\<rparr> else st1)
          in (case BaseBackend_set I b1 key v ttl now of (r, b2) \<Rightarrow> (r, st2, b2)))"

definition LFU_get ::
  "('k, 'v, 's) backend_impl \<Rightarrow> 'k LFUEvictionStrategy \<Rightarrow> ('k, 's) BaseBackend \<Rightarrow> 'k
     \<Rightarrow> ('k, 'v) miss_callback option \<Rightarrow> real \<Rightarrow> ('v option, 'k LFUEvictionStrategy, 'k, 's) sresult" where
  "LFU_get I st b key miss_callback now =
     (case BaseBackend_get I b key now of
        (Inl e, b') \<Rightarrow> (Inl e, st, b')
      | (Inr v, b') \<Rightarrow>
          if v \<noteq> None then
            (Inr v,
             st\<lparr>access_counts :=
                  dict_set (access_counts st) key (dict_get (access_counts st) key 0 + 1)\<rparr>,
             b')
          else (case miss_callback of
                  None \<Rightarrow> (Inr v, st, b')
                | Some f \<Rightarrow>
                    (case f key of
                       Inl e \<Rightarrow> (Inl e, st, b')
                     | Inr v' \<Rightarrow>
                         if v' \<noteq> None then
                           (case LFU_set I st b' key v' None now of
                              (Inl e, st', b'') \<Rightarrow> (Inl e, st', b'')
                            | (Inr r, st', b'') \<Rightarrow> (Inr v', st', b''))
                         else (Inr v', st, b'))))"

definition LFU_delete ::
  "('k, 'v, 's) backend_impl \<Rightarrow> 'k LFUEvictionStrategy \<Rightarrow> ('k, 's) BaseBackend \<Rightarrow> 'k
     \<Rightarrow> (bool, 'k LFUEvictionStrategy, 'k, 's) sresult" where
  "LFU_delete I st b key =
     (case BaseBackend_delete I b key of
        (Inl e, b') \<Rightarrow> (Inl e, st, b')
      | (Inr r, b') \<Rightarrow>
          (Inr r, (if r then st\<lparr>access_counts := dict_del (access_counts st) key\<rparr> else st), b'))"

definition LFU_clear ::
  "('k, 'v, 's) backend_impl \<Rightarrow> 'k LFUEvictionStrategy \<Rightarrow> ('k, 's) BaseBackend
     \<Rightarrow> (bool, 'k LFUEvictionStrategy, 'k, 's) sresult" where
  "LFU_clear I st b =
     (case BaseBackend_clear I b of (r, b') \<Rightarrow> (r, st\<lparr>access_counts := []\<rparr>, b'))"

subsection \<open>FIFO\<close>

text \<open>The deque of keys, oldest first.\<close>

record 'k FIFOEvictionStrategy =
  max_size_fifo :: int
  insertion_order :: "'k list"


definition FIFO_set ::
  "('k, 'v, 's) backend_impl \<Rightarrow> 'k FIFOEvictionStrategy \<Rightarrow> ('k, 's) BaseBackend \<Rightarrow> 'k \<Rightarrow> 'v option
     \<Rightarrow> real option \<Rightarrow> real \<Rightarrow> (bool, 'k FIFOEvictionStrategy, 'k, 's) sresult" where
  "FIFO_set I st b key v ttl now =
     (case (if key \<notin> set (insertion_order st)
               \<and> int (length (insertion_order st)) \<ge> max_size_fifo st then
              (case insertion_order st of
                 [] \<Rightarrow> (Inl IndexError, st, b)
               | oldest_key # rest \<Rightarrow>
                   (case BaseBackend_delete I b oldest_key of
                      (Inl e, b') \<Rightarrow> (Inl e, st\<lparr>insertion_order := rest\<rparr>, b')
                    | (Inr r, b') \<Rightarrow> (Inr (), st\<lparr>insertion_order := rest\<rparr>, b')))
            else (Inr (), st, b)) of
        (Inl e, st1, b1) \<Rightarrow> (Inl e, st1, b1)
      | (Inr u, st1, b1) \<Rightarrow>
          let st2 = (if key \<notin> set (insertion_order st1)
                     then st1\<lparr>insertion_order := insertion_order st1 @ [key]\<rparr> else st1)
          in (case BaseBackend_set I b1 key v ttl now of (r, b2) \<Rightarrow> (r, st2, b2)))"

definition FIFO_get ::
  "('k, 'v, 's) backend_impl \<Rightarrow> 'k FIFOEvictionStrategy \<Rightarrow> ('k, 's) BaseBackend \<Rightarrow> 'k
     \<Rightarrow> ('k, 'v) miss_callback option \<Rightarrow> real \<Rightarrow> ('v option, 'k FIFOEvictionStrategy, 'k, 's) sresult" where
  "FIFO_get I st b key miss_callback now =
     (case BaseBackend_get I b key now of
        (Inl e, b') \<Rightarrow> (Inl e, st, b')
      | (Inr v, b') \<Rightarrow>
          if v = None \<and> miss_callback \<noteq> None then
            (case miss_callback of
               None \<Rightarrow> (Inr v, st, b')
             | Some f \<Rightarrow>
                 (case f key of
                    Inl e \<Rightarrow> (Inl e, st, b')
                  | Inr v' \<Rightarrow>
                      if v' \<noteq> None then
                        (case FIFO_set I st b' key v' None now of
                           (Inl e, st', b'') \<Rightarrow> (Inl e, st', b'')
                         | (Inr r, st', b'') \<Rightarrow> (Inr v', st', b''))
                      else (Inr v', st, b')))
          else (Inr v, st, b'))"

definition FIFO_delete ::
  "('k, 'v, 's) backend_impl \<Rightarrow> 'k FIFOEvictionStrategy \<Rightarrow> ('k, 's) BaseBackend \<Rightarrow> 'k
     \<Rightarrow> (bool, 'k FIFOEvictionStrategy, 'k, 's) sresult" where
  "FIFO_delete I st b key =
     (case BaseBackend_delete I b key of
        (Inl e, b') \<Rightarrow> (Inl e, st, b')
      | (Inr r, b') \<Rightarrow>
          (Inr r, (if r then st\<lparr>insertion_order := remove1 key (insertion_order st)\<rparr> else st), b'))"

definition FIFO_clear ::
  "('k, 'v, 's) backend_impl \<Rightarrow> 'k FIFOEvictionStrategy \<Rightarrow> ('k, 's) BaseBackend
     \<Rightarrow> (bool, 'k FIFOEvictionStrategy, 'k, 's) sresult" where
  "FIFO_clear I st b =
     (case BaseBackend_clear I b of (r, b') \<Rightarrow> (r, st\<lparr>insertion_order := []\<rparr>, b'))"

subsection \<open>The three strategies behind the strategy protocol\<close>

datatype 'k eviction =
    LRU "'k LRUEvictionStrategy"
  | LFU "'k LFUEvictionStrategy"
  | FIFO "'k FIFOEvictionStrategy"

fun shadow_index :: "'k eviction \<Rightarrow> 'k list" where
  "shadow_index (LRU st) = access_order st"
| "shadow_index (LFU st) = map fst (access_counts st)"
| "shadow_index (FIFO st) = insertion_order st"

fun max_size :: "'k eviction \<Rightarrow> int" where
  "max_size (LRU st) = max_size_lru st"
| "max_size (LFU st) = max_size_lfu st"
| "max_size (FIFO st) = max_size_fifo st"

fun strategy_get ::
  "('k, 'v, 's) backend_impl \<Rightarrow> 'k eviction \<Rightarrow> ('k, 's) BaseBackend \<Rightarrow> 'k
     \<Rightarrow> ('k, 'v) miss_callback option \<Rightarrow> real \<Rightarrow> ('v option, 'k eviction, 'k, 's) sresult" where
  "strategy_get I (LRU st) b key cb now = (case LRU_get I st b key cb now of (r, st', b') \<Rightarrow> (r, LRU st', b'))"
| "strategy_get I (LFU st) b key cb now = (case LFU_get I st b key cb now of (r, st', b') \<Rightarrow> (r, LFU st', b'))"
| "strategy_get I (FIFO st) b key cb now = (case FIFO_get I st b key cb now of (r, st', b') \<Rightarrow> (r, FIFO st', b'))"

fun strategy_set ::
  "('k, 'v, 's) backend_impl \<Rightarrow> 'k eviction \<Rightarrow> ('k, 's) BaseBackend \<Rightarrow> 'k \<Rightarrow> 'v option
     \<Rightarrow> real option \<Rightarrow> real \<Rightarrow> (bool, 'k eviction, 'k, 's) sresult" where
  "strategy_set I (LRU st) b key v ttl now = (case LRU_set I st b key v ttl now of (r, st', b') \<Rightarrow> (r, LRU st', b'))"
| "strategy_set I (LFU st) b key v ttl now = (case LFU_set I st b key v ttl now of (r, st', b') \<Rightarrow> (r, LFU st', b'))"
| "strategy_set I (FIFO st) b key v ttl now = (case FIFO_set I st b key v ttl now of (r, st', b') \<Rightarrow> (r, FIFO st', b'))"

fun strategy_delete ::
  "('k, 'v, 's) backend_impl \<Rightarrow> 'k eviction \<Rightarrow> ('k, 's) BaseBackend \<Rightarrow> 'k
     \<Rightarrow> (bool, 'k eviction, 'k, 's) sresult" where
  "strategy_delete I (LRU st) b key = (case LRU_delete I st b key of (r, st', b') \<Rightarrow> (r, LRU st', b'))"
| "strategy_delete I (LFU st) b key = (case LFU_delete I st b key of (r, st', b') \<Rightarrow> (r, LFU st', b'))"
| "strategy_delete I (FIFO st) b key = (case FIFO_delete I st b key of (r, st', b') \<Rightarrow> (r, FIFO st', b'))"

fun strategy_clear ::
  "('k, 'v, 's) backend_impl \<Rightarrow> 'k eviction \<Rightarrow> ('k, 's) BaseBackend
     \<Rightarrow> (bool, 'k eviction, 'k, 's) sresult" where
  "strategy_clear I (LRU st) b = (case LRU_clear I st b of (r, st', b') \<Rightarrow> (r, LRU st', b'))"
| "strategy_clear I (LFU st) b = (case LFU_clear I st b of (r, st', b') \<Rightarrow> (r, LFU st', b'))"
| "strategy_clear I (FIFO st) b = (case FIFO_clear I st b of (r, st', b') \<Rightarrow> (r, FIFO st', b'))"

text \<open>
  A strategy-level call, and a run of calls issued at the given times; a call that raises
  leaves the state it reached and the run goes on with the next call.
\<close>

datatype ('k, 'v) call =
    Get 'k "('k, 'v) miss_callback option"
  | Set 'k "'v option" "real option"
  | Delete 'k
  | Clear

fun step ::
  "('k, 'v, 's) backend_impl \<Rightarrow> 'k eviction \<times> ('k, 's) BaseBackend \<Rightarrow> real \<times> ('k, 'v) call
     \<Rightarrow> 'k eviction \<times> ('k, 's) BaseBackend" where
  "step I (S, b) (now, Get key cb) = snd (strategy_get I S b key cb now)"
| "step I (S, b) (now, Set key v ttl) = snd (strategy_set I S b key v ttl now)"
| "step I (S, b) (now, Delete key) = snd (strategy_delete I S b key)"
| "step I (S, b) (now, Clear) = snd (strategy_clear I S b)"

definition run ::
  "('k, 'v, 's) backend_impl \<Rightarrow> 'k eviction \<times> ('k, 's) BaseBackend \<Rightarrow> (real \<times> ('k, 'v) call) list
     \<Rightarrow> 'k eviction \<times> ('k, 's) BaseBackend" where
  "run I c calls = foldl (step I) c calls"

subsection \<open>The policies' victims\<close>

text \<open>The key that the eviction block of each \<^verbatim>\<open>set\<close> picks from the shadow index.\<close>

fun victim :: "'k eviction \<Rightarrow> 'k option" where
  "victim (LRU st) = (case access_order st of [] \<Rightarrow> None | lru_key # rest \<Rightarrow> Some lru_key)"
| "victim (LFU st) =
     (case access_counts st of [] \<Rightarrow> None | item # items \<Rightarrow> Some (fst (min_item item items)))"
| "victim (FIFO st) = (case insertion_order st of [] \<Rightarrow> None | oldest_key # rest \<Rightarrow> Some oldest_key)"

section \<open>Concrete states used as examples\<close>


section \<open>Reads of expired keys\<close>



section \<open>Agreement of shadow index and backend\<close>

text \<open>
  The state of a strategy and an in-memory backend is \<open>synced\<close> when the backend is open,
  the shadow index lists no key twice and every key of the index is a key of the store.
\<close>

definition synced :: "'k eviction \<times> ('k, ('k, 'v) memory_store) BaseBackend \<Rightarrow> bool" where
  "synced c \<longleftrightarrow> \<not> closed_flag (snd c) \<and> distinct (shadow_index (fst c))
                \<and> set (shadow_index (fst c)) \<subseteq> dom (store (snd c))"

section \<open>Runs of sets\<close>





section \<open>Evictions of a run\<close>

text \<open>
  The keys that a call takes out of the shadow index, and those that the calls of a run
  take out, in order; for a \<^verbatim>\<open>set\<close> these are the victims it evicts.
\<close>

definition dropped ::
  "('k, 'v, 's) backend_impl \<Rightarrow> 'k eviction \<times> ('k, 's) BaseBackend \<Rightarrow> real \<times> ('k, 'v) call \<Rightarrow> 'k list" where
  "dropped I c x = filter (\<lambda>k. k \<notin> set (shadow_index (fst (step I c x)))) (shadow_index (fst c))"






section \<open>Metadata and store of the in-memory backend\<close>

text \<open>
  On an open in-memory backend every key with a metadata record is a key of the store
  (and records exist only when metadata is enabled).
\<close>

definition meta_in_store :: "('k, ('k, 'v) memory_store) BaseBackend \<Rightarrow> bool" where
  "meta_in_store b \<longleftrightarrow>
     \<not> closed_flag b \<and> (\<forall>k. metadata b k \<noteq> None \<longrightarrow> enable_metadata b \<and> store b k \<noteq> None)"

text \<open>
  A file backend on which \<^verbatim>\<open>set("a/b", 1, ttl=1)\<close> was called at time 0 and
  \<^verbatim>\<open>delete("a_b")\<close> at time 1/2. Both keys are sanitized to the file name \<^verbatim>\<open>a_b\<close>.
\<close>

abbreviation aliased_file_backend :: "(string, int file_store) BaseBackend" where
  "aliased_file_backend \<equiv>
     backend_run (FileBackend (\<lambda>s. s) True) (FileBackend_init True)
       [(0, BSet ''a/b'' (Some 1) (Some 1)), (1/2, BDelete ''a_b'')]"

section \<open>States whose backend keys are all in the shadow index\<close>


chapter \<open>Properties\<close>

section \<open>Facts about the substrate on the in-memory store\<close>

lemma meta_proj [simp]:
  "store (set_metadata b k ttl now) = store b"
  "closed_flag (set_metadata b k ttl now) = closed_flag b"
  "enable_metadata (set_metadata b k ttl now) = enable_metadata b"
  "store (delete_metadata b k) = store b"
  "closed_flag (delete_metadata b k) = closed_flag b"
  "enable_metadata (delete_metadata b k) = enable_metadata b"
  "store (update_access_metadata b k now) = store b"
  "closed_flag (update_access_metadata b k now) = closed_flag b"
  "enable_metadata (update_access_metadata b k now) = enable_metadata b"
  "store (clear_metadata b) = store b"
  "closed_flag (clear_metadata b) = closed_flag b"
  "enable_metadata (clear_metadata b) = enable_metadata b"
  by (simp_all add: set_metadata_def delete_metadata_def update_access_metadata_def
      clear_metadata_def Let_def split: option.splits)

lemma mem_delete:
  "\<not> closed_flag b \<Longrightarrow> BaseBackend_delete MemoryBackend b k =
     (Inr (store b k \<noteq> None),
      if store b k \<noteq> None then delete_metadata (b\<lparr>store := (store b)(k := None)\<rparr>) k else b)"
  by (simp add: BaseBackend_delete_def MemoryBackend_def Memory_delete_impl_def)

lemma mem_set:
  "\<not> closed_flag b \<Longrightarrow> BaseBackend_set MemoryBackend b k v ttl now =
     (Inr True, set_metadata (b\<lparr>store := (store b)(k \<mapsto> v)\<rparr>) k ttl now)"
  by (simp add: BaseBackend_set_def MemoryBackend_def Memory_set_impl_def)

lemma mem_clear:
  "\<not> closed_flag b \<Longrightarrow> BaseBackend_clear MemoryBackend b =
     (Inr True, clear_metadata (b\<lparr>store := Map.empty\<rparr>))"
  by (simp add: BaseBackend_clear_def MemoryBackend_def Memory_clear_impl_def)

lemma mem_get:
  "\<not> closed_flag b \<Longrightarrow> BaseBackend_get MemoryBackend b k now =
     (if BaseBackend_is_expired b k now then (Inr None, snd (BaseBackend_delete MemoryBackend b k))
      else (Inr (case store b k of None \<Rightarrow> None | Some v \<Rightarrow> v),
            if (case store b k of None \<Rightarrow> None | Some v \<Rightarrow> v) \<noteq> None
            then update_access_metadata b k now else b))"
  by (simp add: BaseBackend_get_def MemoryBackend_def Memory_get_impl_def mem_delete
      BaseBackend_delete_def Memory_delete_impl_def)

lemma mem_exists:
  "\<not> closed_flag b \<Longrightarrow> BaseBackend_exists MemoryBackend b k now =
     (if BaseBackend_is_expired b k now then (Inr False, snd (BaseBackend_delete MemoryBackend b k))
      else (Inr (store b k \<noteq> None), b))"
  by (simp add: BaseBackend_exists_def MemoryBackend_def Memory_exists_impl_def
      BaseBackend_delete_def Memory_delete_impl_def)

section \<open>Closed backends\<close>

lemma closed_ops:
  assumes "closed_flag b"
  shows "BaseBackend_get I b k now = (Inl BackendError, b)"
    and "BaseBackend_set I b k v ttl now = (Inl BackendError, b)"
    and "BaseBackend_delete I b k = (Inl BackendError, b)"
    and "BaseBackend_exists I b k now = (Inl BackendError, b)"
    and "BaseBackend_clear I b = (Inl BackendError, b)"
  using assms
  by (simp_all add: BaseBackend_get_def BaseBackend_set_def BaseBackend_delete_def
      BaseBackend_exists_def BaseBackend_clear_def)

lemma close_closed: "closed_flag (BaseBackend_close b)"
  by (simp add: BaseBackend_close_def clear_metadata_def)

text \<open>
  C9. After \<^verbatim>\<open>close()\<close>, each of get, set, delete, exists and clear raises
  \<^verbatim>\<open>BackendError\<close> and leaves the backend as it is (so it stays closed and every later
  call raises too), whatever store the backend sits on; and \<^verbatim>\<open>close()\<close> leaves no
  metadata record: the table is empty when metadata is enabled, and no key has a record
  to return in either case.
\<close>

theorem close_then_every_operation_raises:
  fixes I :: "('k, 'v, 's) backend_impl" and b :: "('k, 's) BaseBackend"
  shows "BaseBackend_get I (BaseBackend_close b) k now = (Inl BackendError, BaseBackend_close b)
       \<and> BaseBackend_set I (BaseBackend_close b) k v ttl now = (Inl BackendError, BaseBackend_close b)
       \<and> BaseBackend_delete I (BaseBackend_close b) k = (Inl BackendError, BaseBackend_close b)
       \<and> BaseBackend_exists I (BaseBackend_close b) k now = (Inl BackendError, BaseBackend_close b)
       \<and> BaseBackend_clear I (BaseBackend_close b) = (Inl BackendError, BaseBackend_close b)
       \<and> get_metadata (BaseBackend_close b) k' = None
       \<and> metadata (BaseBackend_close b) = (if enable_metadata b then Map.empty else metadata b)"
proof -
  have c: "closed_flag (BaseBackend_close b)" by (rule close_closed)
  have m: "get_metadata (BaseBackend_close b) k' = None"
    by (simp add: get_metadata_def BaseBackend_close_def clear_metadata_def)
  have e: "metadata (BaseBackend_close b) = (if enable_metadata b then Map.empty else metadata b)"
    by (simp add: BaseBackend_close_def clear_metadata_def)
  show ?thesis by (simp add: closed_ops [OF c] m e)
qed

section \<open>TTL validation\<close>

text \<open>
  C8. \<^verbatim>\<open>TTLStrategy.set\<close> raises \<^verbatim>\<open>StrategyError\<close>, leaving the backend untouched, when
  the effective ttl is absent or not positive; when it is present and positive the call
  is \<^verbatim>\<open>backend.set(key, value, effective_ttl)\<close>. On the in-memory backend, whose \<^verbatim>\<open>set\<close>
  raises nothing but \<^verbatim>\<open>BackendError\<close>, the validation error is raised exactly in the
  first case.
\<close>

theorem TTLStrategy_set_validates_effective_ttl:
  fixes I :: "('k, 'v, 's) backend_impl" and b :: "('k, 's) BaseBackend"
    and M :: "('k, ('k, 'v) memory_store) BaseBackend"
  shows "(effective_ttl_spec ttl (default_ttl_s st) = None
            \<or> (\<exists>e. effective_ttl_spec ttl (default_ttl_s st) = Some e \<and> e \<le> 0)
          \<longrightarrow> TTLStrategy_set I st b k v ttl now = (Inl StrategyError, b))
       \<and> (\<forall>e. effective_ttl_spec ttl (default_ttl_s st) = Some e \<and> 0 < e
          \<longrightarrow> TTLStrategy_set I st b k v ttl now = BaseBackend_set I b k v (Some e) now)
       \<and> (fst (TTLStrategy_set MemoryBackend st M k v ttl now) = Inl StrategyError
          \<longleftrightarrow> (effective_ttl_spec ttl (default_ttl_s st) = None
               \<or> (\<exists>e. effective_ttl_spec ttl (default_ttl_s st) = Some e \<and> e \<le> 0)))"
  by (cases ttl; cases "default_ttl_s st")
     (auto simp: TTLStrategy_set_def effective_ttl_spec_def BaseBackend_set_def
        MemoryBackend_def Memory_set_impl_def)

theorem TTLStrategy_set_validates_effective_ttl_witness:
  "TTLStrategy_set MemoryBackend \<lparr>default_ttl_s = None\<rparr> (MemoryBackend_init True) ''x'' (Some (42::int)) None 0
     = (Inl StrategyError, MemoryBackend_init True)
   \<and> TTLStrategy_set MemoryBackend \<lparr>default_ttl_s = Some (1/10)\<rparr> (MemoryBackend_init True) ''x'' (Some (42::int)) (Some (-1)) 0
     = (Inl StrategyError, MemoryBackend_init True)
   \<and> TTLStrategy_set MemoryBackend \<lparr>default_ttl_s = Some (1/10)\<rparr> (MemoryBackend_init True) ''x'' (Some (42::int)) None 0
     = BaseBackend_set MemoryBackend (MemoryBackend_init True) ''x'' (Some (42::int)) (Some (1/10)) 0
   \<and> fst (TTLStrategy_set MemoryBackend \<lparr>default_ttl_s = Some (1/10)\<rparr> (MemoryBackend_init True) ''x'' (Some (42::int)) None 0)
     = Inr True"
proof -
  let ?M = "MemoryBackend_init True :: (string, (string, int) memory_store) BaseBackend"
  have a: "effective_ttl_spec None (default_ttl_s \<lparr>default_ttl_s = None\<rparr>) = None"
    by (simp add: effective_ttl_spec_def)
  have b: "effective_ttl_spec (Some (-1)) (default_ttl_s \<lparr>default_ttl_s = Some (1/10)\<rparr>) = Some (-1) \<and> (-1::real) \<le> 0"
    by (simp add: effective_ttl_spec_def)
  have c: "effective_ttl_spec None (default_ttl_s \<lparr>default_ttl_s = Some (1/10)\<rparr>) = Some (1/10) \<and> (0::real) < 1/10"
    by (simp add: effective_ttl_spec_def)
  have 1: "TTLStrategy_set MemoryBackend \<lparr>default_ttl_s = None\<rparr> ?M ''x'' (Some 42) None 0 = (Inl StrategyError, ?M)"
    using TTLStrategy_set_validates_effective_ttl
      [of None "\<lparr>default_ttl_s = None\<rparr>" MemoryBackend ?M "''x''" "Some 42" 0] a by blast
  have 2: "TTLStrategy_set MemoryBackend \<lparr>default_ttl_s = Some (1/10)\<rparr> ?M ''x'' (Some 42) (Some (-1)) 0 = (Inl StrategyError, ?M)"
    using TTLStrategy_set_validates_effective_ttl
      [of "Some (-1)" "\<lparr>default_ttl_s = Some (1/10)\<rparr>" MemoryBackend ?M "''x''" "Some 42" 0] b by blast
  have 3: "TTLStrategy_set MemoryBackend \<lparr>default_ttl_s = Some (1/10)\<rparr> ?M ''x'' (Some 42) None 0
       = BaseBackend_set MemoryBackend ?M ''x'' (Some 42) (Some (1/10)) 0"
    using TTLStrategy_set_validates_effective_ttl
      [of None "\<lparr>default_ttl_s = Some (1/10)\<rparr>" MemoryBackend ?M "''x''" "Some 42" 0] c by blast
  have 4: "fst (BaseBackend_set MemoryBackend ?M ''x'' (Some 42) (Some (1/10)) 0) = Inr True"
    by (simp add: BaseBackend_set_def MemoryBackend_def Memory_set_impl_def MemoryBackend_init_def
        BaseBackend_init_def)
  from 1 2 3 4 show ?thesis by simp
qed

section \<open>The manager's default ttl\<close>

text \<open>
  C10. \<^verbatim>\<open>CacheManager.set\<close> hands the strategy the configured \<^verbatim>\<open>default_ttl\<close> when the
  per-call ttl is omitted and also when it is 0; any other per-call ttl is handed on as
  it is. So with a configuration that passed its own validation (a default that is
  absent or positive) the strategy never receives a ttl of 0.
\<close>

theorem CacheManager_set_zero_ttl_becomes_default:
  "CacheManager_set c S key v (Some 0) st = S (make_key c key) v (default_ttl c) st
   \<and> CacheManager_set c S key v None st = S (make_key c key) v (default_ttl c) st
   \<and> (t \<noteq> 0 \<longrightarrow> CacheManager_set c S key v (Some t) st = S (make_key c key) v (Some t) st)
   \<and> (CacheConfig_post_init c = Inr c
        \<longrightarrow> CacheManager_set c (\<lambda>full_key value ttl' s. ttl') key v ttl st \<noteq> Some 0)"
  by (auto simp: CacheManager_set_def ttl_or_def CacheConfig_post_init_def
      split: option.splits if_splits)

theorem CacheManager_set_zero_ttl_becomes_default_witness:
  "CacheManager_set \<lparr>default_ttl = Some 60, key_prefix = ''p'', namespace = ''default'',
       serialization_method = ''pickle''\<rparr> (\<lambda>full_key value ttl' s. (full_key, ttl')) ''k'' (1::int) (Some 0) ()
     = (''default:p:k'', Some 60)
   \<and> CacheManager_set \<lparr>default_ttl = Some 60, key_prefix = ''p'', namespace = ''default'',
       serialization_method = ''pickle''\<rparr> (\<lambda>full_key value ttl' s. (full_key, ttl')) ''k'' (1::int) (Some 5) ()
     = (''default:p:k'', Some 5)
   \<and> CacheManager_set \<lparr>default_ttl = Some 60, key_prefix = ''p'', namespace = ''default'',
       serialization_method = ''pickle''\<rparr> (\<lambda>full_key value ttl' s. ttl') ''k'' (1::int) (Some 0) ()
     \<noteq> Some 0"
proof -
  let ?c = "\<lparr>default_ttl = Some 60, key_prefix = ''p'', namespace = ''default'',
       serialization_method = ''pickle''\<rparr>"
  have k: "make_key ?c ''k'' = ''default:p:k''"
    by (simp add: make_key_def)
  have p: "CacheConfig_post_init ?c = Inr ?c"
    by (simp add: CacheConfig_post_init_def)
  have n: "(5::real) \<noteq> 0" by simp
  show ?thesis
    using CacheManager_set_zero_ttl_becomes_default
        [of ?c "\<lambda>full_key value ttl' s. (full_key, ttl')" "''k''" "1::int" "()" 5 "Some 0"]
      CacheManager_set_zero_ttl_becomes_default
        [of ?c "\<lambda>full_key value ttl' s. ttl'" "''k''" "1::int" "()" 5 "Some 0"]
      k p n
    by simp
qed

section \<open>Write-through\<close>

text \<open>
  C4. With a write callback configured, \<^verbatim>\<open>WriteThroughStrategy.set\<close> calls it first. If
  it raises, the set raises (\<^verbatim>\<open>RuntimeError\<close>) and the backend is exactly as before, so
  it holds no new value; the backend is written only after the callback has returned, or
  when no callback is configured, and then the outcome is that of \<^verbatim>\<open>backend.set\<close>.
\<close>

theorem WriteThrough_set_callback_first:
  fixes I :: "('k, 'v, 's) backend_impl"
  shows "(\<forall>f e d'. write_callback_wt st = Some f \<and> f key v d = (Inl e, d')
            \<longrightarrow> WriteThrough_set I st d b key v ttl now = (Inl RuntimeError, d', b))
       \<and> (\<forall>f u d'. write_callback_wt st = Some f \<and> f key v d = (Inr u, d')
            \<longrightarrow> WriteThrough_set I st d b key v ttl now
                = (fst (BaseBackend_set I b key v ttl now), d', snd (BaseBackend_set I b key v ttl now)))
       \<and> (write_callback_wt st = None
            \<longrightarrow> WriteThrough_set I st d b key v ttl now
                = (fst (BaseBackend_set I b key v ttl now), d, snd (BaseBackend_set I b key v ttl now)))"
  by (auto simp: WriteThrough_set_def call_callback_def split: prod.splits)

theorem WriteThrough_set_callback_first_witness:
  "WriteThrough_set MemoryBackend \<lparr>write_callback_wt = Some (\<lambda>k v d. (Inl OtherError, d))\<rparr>
       (0::nat) (MemoryBackend_init True) ''k'' (Some (1::int)) None 0
     = (Inl RuntimeError, 0, MemoryBackend_init True)
   \<and> WriteThrough_set MemoryBackend \<lparr>write_callback_wt = Some (\<lambda>k v d. (Inr (), Suc d))\<rparr>
       (0::nat) (MemoryBackend_init True) ''k'' (Some (1::int)) None 0
     = (Inr True, Suc 0, snd (BaseBackend_set MemoryBackend (MemoryBackend_init True) ''k'' (Some (1::int)) None 0))
   \<and> WriteThrough_set MemoryBackend \<lparr>write_callback_wt = None\<rparr>
       (0::nat) (MemoryBackend_init True) ''k'' (Some (1::int)) None 0
     = (Inr True, 0, snd (BaseBackend_set MemoryBackend (MemoryBackend_init True) ''k'' (Some (1::int)) None 0))"
proof -
  let ?b = "MemoryBackend_init True :: (string, (string, int) memory_store) BaseBackend"
  have o: "\<not> closed_flag ?b" by (simp add: MemoryBackend_init_def BaseBackend_init_def)
  have r: "fst (BaseBackend_set MemoryBackend ?b ''k'' (Some 1) None 0) = Inr True"
    by (simp add: mem_set [OF o])
  have 1: "WriteThrough_set MemoryBackend \<lparr>write_callback_wt = Some (\<lambda>k v d. (Inl OtherError, d))\<rparr>
       (0::nat) ?b ''k'' (Some 1) None 0 = (Inl RuntimeError, 0, ?b)"
    using WriteThrough_set_callback_first
      [where st = "\<lparr>write_callback_wt = Some (\<lambda>k v d. (Inl OtherError, d))\<rparr>" and d = "0::nat"
         and key = "''k''" and v = "Some (1::int)" and I = MemoryBackend and b = ?b and ttl = None and now = 0]
    by simp
  have 2: "WriteThrough_set MemoryBackend \<lparr>write_callback_wt = Some (\<lambda>k v d. (Inr (), Suc d))\<rparr>
       (0::nat) ?b ''k'' (Some 1) None 0
       = (Inr True, Suc 0, snd (BaseBackend_set MemoryBackend ?b ''k'' (Some 1) None 0))"
    using WriteThrough_set_callback_first
      [where st = "\<lparr>write_callback_wt = Some (\<lambda>k v d. (Inr (), Suc d))\<rparr>" and d = "0::nat"
         and key = "''k''" and v = "Some (1::int)" and I = MemoryBackend and b = ?b and ttl = None and now = 0]
      r by simp
  have 3: "WriteThrough_set MemoryBackend \<lparr>write_callback_wt = None\<rparr>
       (0::nat) ?b ''k'' (Some 1) None 0
       = (Inr True, 0, snd (BaseBackend_set MemoryBackend ?b ''k'' (Some 1) None 0))"
    using WriteThrough_set_callback_first
      [where st = "\<lparr>write_callback_wt = None\<rparr>" and d = "0::nat"
         and key = "''k''" and v = "Some (1::int)" and I = MemoryBackend and b = ?b and ttl = None and now = 0]
      r by simp
  from 1 2 3 show ?thesis by simp
qed

section \<open>Write-back\<close>


lemma WriteBack_set_backend:
  "snd (snd (snd (WriteBack_set I st d b k v ttl now))) = snd (BaseBackend_set I b k v ttl now)"
  by (simp add: WriteBack_set_def split: prod.splits sum.splits)



section \<open>Evaluation of concrete runs\<close>

lemmas eval_defs =
  run_def dropped_def LRU_get_def LRU_set_def LRU_delete_def LRU_clear_def
  LFU_get_def LFU_set_def LFU_delete_def LFU_clear_def
  FIFO_get_def FIFO_set_def FIFO_delete_def FIFO_clear_def
  BaseBackend_get_def BaseBackend_set_def BaseBackend_delete_def BaseBackend_exists_def
  BaseBackend_clear_def BaseBackend_is_expired_def BaseBackend_init_def MemoryBackend_init_def
  MemoryBackend_def Memory_get_impl_def Memory_set_impl_def Memory_delete_impl_def
  Memory_exists_impl_def Memory_clear_impl_def
  set_metadata_def delete_metadata_def update_access_metadata_def clear_metadata_def
  is_expired_def update_access_def CacheMetadata_init_def dict_del_def dict_get_def Let_def

section \<open>The size bound of the eviction strategies\<close>

lemma min_item_mem: "min_item best xs \<in> set (best # xs)"
  by (induction xs arbitrary: best) auto

lemma min_item_least: "snd (min_item best xs) \<le> snd best \<and> (\<forall>x \<in> set xs. snd (min_item best xs) \<le> snd x)"
proof (induction xs arbitrary: best)
  case Nil
  then show ?case by simp
next
  case (Cons x xs)
  show ?case using Cons.IH [of "if snd x < snd best then x else best"]
    by (auto split: if_splits)
qed

text \<open>The victim of LFU has the smallest access count in the index.\<close>

lemma LFU_victim_least_count:
  assumes "victim (LFU st) = Some w"
  shows "\<exists>c. (w, c) \<in> set (access_counts st) \<and> (\<forall>p \<in> set (access_counts st). c \<le> snd p)"
proof -
  from assms obtain item items where o: "access_counts st = item # items"
    and w: "w = fst (min_item item items)"
    by (cases "access_counts st") auto
  have "(w, snd (min_item item items)) \<in> set (access_counts st)"
    using min_item_mem [of item items] by (simp add: o w)
  moreover have "\<forall>p \<in> set (access_counts st). snd (min_item item items) \<le> snd p"
    using min_item_least [of item items] by (simp add: o)
  ultimately show ?thesis by blast
qed









section \<open>The shadow index and the backend's keys\<close>




lemma max_size_step [simp]: "max_size (fst (step I (S, b) x)) = max_size S"
proof -
  obtain now c where x: "x = (now, c)" by (cases x)
  show ?thesis unfolding x
    by (cases c; cases S)
       (auto simp: LRU_get_def LRU_set_def LRU_delete_def LRU_clear_def
          LFU_get_def LFU_set_def LFU_delete_def LFU_clear_def
          FIFO_get_def FIFO_set_def FIFO_delete_def FIFO_clear_def Let_def
          split: prod.splits sum.splits option.splits list.splits if_splits)
qed







lemma synced_access:
  "synced (S, update_access_metadata b key now) = synced (S, b)"
  by (simp add: synced_def)












section \<open>LRU: the first of n + 1 keys is evicted\<close>







lemma open_after_set [simp]:
  "closed_flag (snd (BaseBackend_set MemoryBackend b key v ttl now)) = closed_flag b"
  by (simp add: BaseBackend_set_def MemoryBackend_def Memory_set_impl_def)

lemma open_after_delete [simp]:
  "closed_flag (snd (BaseBackend_delete MemoryBackend b key)) = closed_flag b"
  by (simp add: BaseBackend_delete_def MemoryBackend_def Memory_delete_impl_def)










section \<open>FIFO: evictions and reads\<close>

lemma open_after_get [simp]:
  "closed_flag (snd (BaseBackend_get MemoryBackend b key now)) = closed_flag b"
  by (simp add: BaseBackend_get_def BaseBackend_delete_def MemoryBackend_def Memory_get_impl_def
      Memory_delete_impl_def)














section \<open>Lazy expiry on access\<close>

lemma metadata_other_key:
  fixes I :: "('k, 'v, 's) backend_impl"
  assumes "k' \<noteq> k"
  shows "metadata (snd (BaseBackend_get I b k' t)) k = metadata b k"
    and "metadata (snd (BaseBackend_exists I b k' t)) k = metadata b k"
    and "metadata (snd (BaseBackend_set I b k' v ttl t)) k = metadata b k"
    and "metadata (snd (BaseBackend_delete I b k')) k = metadata b k"
  using assms
  by (auto simp: BaseBackend_get_def BaseBackend_exists_def BaseBackend_set_def BaseBackend_delete_def
      set_metadata_def delete_metadata_def update_access_metadata_def Let_def
      split: prod.splits sum.splits option.splits)

lemma meta_in_store_step:
  "meta_in_store b \<Longrightarrow> meta_in_store (backend_step MemoryBackend b x)"
proof -
  assume a: "meta_in_store b"
  obtain now c where x: "x = (now, c)" by (cases x)
  have o: "\<not> closed_flag b" using a by (simp add: meta_in_store_def)
  show ?thesis
    using a unfolding x meta_in_store_def
    by (cases c)
       (auto simp: mem_get mem_set mem_delete mem_exists mem_clear o set_metadata_def
          delete_metadata_def update_access_metadata_def clear_metadata_def Let_def
          split: option.splits if_splits)
qed

lemma meta_in_store_run:
  "meta_in_store b \<Longrightarrow> meta_in_store (backend_run MemoryBackend b calls)"
  unfolding backend_run_def
  by (induction calls arbitrary: b) (simp_all add: meta_in_store_step)

lemma meta_in_store_init: "meta_in_store (MemoryBackend_init em)"
  by (simp add: meta_in_store_def MemoryBackend_init_def BaseBackend_init_def)

lemmas file_defs =
  backend_run_def FileBackend_def FileBackend_init_def File_get_impl_def File_set_impl_def
  File_delete_impl_def File_exists_impl_def File_clear_impl_def get_file_path_def

text \<open>
  C1, as the claim states it for every backend, fails: \<^verbatim>\<open>get\<close> and \<^verbatim>\<open>exists\<close> go through
  \<^verbatim>\<open>delete\<close>, which drops the metadata record only if the store's own delete reports
  that it removed an entry. On the file backend, after \<^verbatim>\<open>set("a/b", 1, ttl=1)\<close> and
  \<^verbatim>\<open>delete("a_b")\<close> (the same file), the key "a/b" has a metadata record with an expiry
  time and no file; at time 2 both \<^verbatim>\<open>get("a/b")\<close> and \<^verbatim>\<open>exists("a/b")\<close> report absent and
  the metadata record is still there.
\<close>

theorem expired_metadata_survives_access:
  "\<not> closed_flag aliased_file_backend \<and> enable_metadata aliased_file_backend
   \<and> map_option expires_at (metadata aliased_file_backend ''a/b'') = Some (Some 1)
   \<and> fst (BaseBackend_get (FileBackend (\<lambda>s. s) True) aliased_file_backend ''a/b'' 2) = Inr None
   \<and> metadata (snd (BaseBackend_get (FileBackend (\<lambda>s. s) True) aliased_file_backend ''a/b'' 2)) ''a/b''
        \<noteq> None
   \<and> fst (BaseBackend_exists (FileBackend (\<lambda>s. s) True) aliased_file_backend ''a/b'' 2) = Inr False
   \<and> metadata (snd (BaseBackend_exists (FileBackend (\<lambda>s. s) True) aliased_file_backend ''a/b'' 2)) ''a/b''
        \<noteq> None"
  by (simp add: file_defs eval_defs)

text \<open>
  C1, amended. For every backend with metadata enabled and every key whose metadata
  records an expiry time: once the current time is at or past \<^verbatim>\<open>expires_at\<close>, both
  \<^verbatim>\<open>get\<close> and \<^verbatim>\<open>exists\<close> run the store's delete for the key and, unless that raises,
  report absent (\<^verbatim>\<open>None\<close>, \<^verbatim>\<open>False\<close>); the metadata record is removed exactly when the
  store's delete reports that it removed an entry. On the in-memory backend, in every
  state that calls of get, set, delete, exists and clear can reach from a new backend,
  that is always so: the store entry and the metadata record are both gone afterwards.
  A call of get, exists, set or delete for another key leaves the key's metadata record
  as it is.
\<close>

theorem lazy_expiry_on_access:
  fixes I :: "('k, 'v, 's) backend_impl" and b :: "('k, 's) BaseBackend"
    and calls :: "(real \<times> ('k, 'v) backend_call) list"
  shows "(\<not> closed_flag b \<and> enable_metadata b \<and> metadata b k = Some m \<and> expires_at m = Some e
            \<and> e \<le> now \<and> delete_impl I k (store b) = (Inr r, s')
          \<longrightarrow> BaseBackend_get I b k now
                = (Inr None, b\<lparr>store := s', metadata := (if r then (metadata b)(k := None) else metadata b)\<rparr>)
              \<and> BaseBackend_exists I b k now
                = (Inr False, b\<lparr>store := s', metadata := (if r then (metadata b)(k := None) else metadata b)\<rparr>))
       \<and> (metadata (backend_run MemoryBackend (MemoryBackend_init True) calls) k = Some m
            \<and> expires_at m = Some e \<and> e \<le> now
          \<longrightarrow> (\<exists>M'. BaseBackend_get MemoryBackend (backend_run MemoryBackend (MemoryBackend_init True) calls) k now
                       = (Inr None, M')
                   \<and> BaseBackend_exists MemoryBackend (backend_run MemoryBackend (MemoryBackend_init True) calls) k now
                       = (Inr False, M')
                   \<and> store M' k = None \<and> metadata M' k = None))
       \<and> (k' \<noteq> k
          \<longrightarrow> metadata (snd (BaseBackend_get I b k' t)) k = metadata b k
            \<and> metadata (snd (BaseBackend_exists I b k' t)) k = metadata b k
            \<and> metadata (snd (BaseBackend_set I b k' v ttl t)) k = metadata b k
            \<and> metadata (snd (BaseBackend_delete I b k')) k = metadata b k)"
proof (intro conjI impI)
  assume a: "\<not> closed_flag b \<and> enable_metadata b \<and> metadata b k = Some m \<and> expires_at m = Some e
            \<and> e \<le> now \<and> delete_impl I k (store b) = (Inr r, s')"
  then have x: "BaseBackend_is_expired b k now"
    by (simp add: BaseBackend_is_expired_def is_expired_def)
  have d: "BaseBackend_delete I b k
      = (Inr r, b\<lparr>store := s', metadata := (if r then (metadata b)(k := None) else metadata b)\<rparr>)"
    using a by (simp add: BaseBackend_delete_def delete_metadata_def)
  show "BaseBackend_get I b k now
      = (Inr None, b\<lparr>store := s', metadata := (if r then (metadata b)(k := None) else metadata b)\<rparr>)"
    using a x by (simp add: BaseBackend_get_def d)
  show "BaseBackend_exists I b k now
      = (Inr False, b\<lparr>store := s', metadata := (if r then (metadata b)(k := None) else metadata b)\<rparr>)"
    using a x by (simp add: BaseBackend_exists_def d)
next
  let ?M = "backend_run MemoryBackend (MemoryBackend_init True) calls :: ('k, ('k, 'v) memory_store) BaseBackend"
  assume a: "metadata ?M k = Some m \<and> expires_at m = Some e \<and> e \<le> now"
  have inv: "meta_in_store ?M" using meta_in_store_run [OF meta_in_store_init] .
  then have o: "\<not> closed_flag ?M" and s: "store ?M k \<noteq> None" and en: "enable_metadata ?M"
    using a by (auto simp: meta_in_store_def)
  have x: "BaseBackend_is_expired ?M k now"
    using a en by (simp add: BaseBackend_is_expired_def is_expired_def)
  show "\<exists>M'. BaseBackend_get MemoryBackend ?M k now = (Inr None, M')
           \<and> BaseBackend_exists MemoryBackend ?M k now = (Inr False, M')
           \<and> store M' k = None \<and> metadata M' k = None"
    using x s en by (auto simp: mem_get [OF o] mem_exists [OF o] mem_delete [OF o] delete_metadata_def)
next
  assume "k' \<noteq> k"
  then show "metadata (snd (BaseBackend_get I b k' t)) k = metadata b k"
    "metadata (snd (BaseBackend_exists I b k' t)) k = metadata b k"
    "metadata (snd (BaseBackend_set I b k' v ttl t)) k = metadata b k"
    "metadata (snd (BaseBackend_delete I b k')) k = metadata b k"
    by (simp_all add: metadata_other_key)
qed

theorem lazy_expiry_on_access_witness:
  "fst (BaseBackend_get MemoryBackend
          (backend_run MemoryBackend (MemoryBackend_init True) [(0, BSet ''x'' (Some (42::int)) (Some (1/10)))])
          ''x'' (3/20)) = Inr None
   \<and> fst (BaseBackend_exists MemoryBackend
          (backend_run MemoryBackend (MemoryBackend_init True) [(0, BSet ''x'' (Some (42::int)) (Some (1/10)))])
          ''x'' (3/20)) = Inr False
   \<and> store (snd (BaseBackend_get MemoryBackend
          (backend_run MemoryBackend (MemoryBackend_init True) [(0, BSet ''x'' (Some (42::int)) (Some (1/10)))])
          ''x'' (3/20))) ''x'' = None
   \<and> metadata (snd (BaseBackend_get MemoryBackend
          (backend_run MemoryBackend (MemoryBackend_init True) [(0, BSet ''x'' (Some (42::int)) (Some (1/10)))])
          ''x'' (3/20))) ''x'' = None
   \<and> metadata (snd (BaseBackend_set MemoryBackend
          (backend_run MemoryBackend (MemoryBackend_init True) [(0, BSet ''x'' (Some (42::int)) (Some (1/10)))])
          ''y'' (Some 7) None 1)) ''x''
       = metadata (backend_run MemoryBackend (MemoryBackend_init True) [(0, BSet ''x'' (Some (42::int)) (Some (1/10)))]) ''x''
   \<and> fst (BaseBackend_get MemoryBackend
          (backend_run MemoryBackend (MemoryBackend_init True) [(0, BSet ''x'' (Some (42::int)) (Some (1/10)))])
          ''x'' (1/20)) = Inr (Some 42)"
proof -
  let ?calls = "[(0, BSet ''x'' (Some (42::int)) (Some (1/10)))] :: (real \<times> (string, int) backend_call) list"
  let ?B = "backend_run MemoryBackend (MemoryBackend_init True) ?calls"
  let ?m = "CacheMetadata_init 0 (Some (1/10)) []"
  let ?s = "snd (delete_impl MemoryBackend ''x'' (store ?B))"
  have h1: "\<not> closed_flag ?B \<and> enable_metadata ?B \<and> metadata ?B ''x'' = Some ?m
      \<and> expires_at ?m = Some (1/10) \<and> (1/10 :: real) \<le> 3/20
      \<and> delete_impl MemoryBackend ''x'' (store ?B) = (Inr True, ?s)"
    by (simp add: backend_run_def eval_defs)
  have h2: "metadata ?B ''x'' = Some ?m \<and> expires_at ?m = Some (1/10) \<and> (1/10 :: real) \<le> 3/20"
    using h1 by simp
  have h3: "''y'' \<noteq> ''x''" by simp
  note t = lazy_expiry_on_access [where I = MemoryBackend and b = ?B and k = "''x''" and m = ?m
      and e = "1/10" and now = "3/20" and r = True and s' = ?s and calls = ?calls
      and k' = "''y''" and v = "Some 7" and ttl = None and t = 1]
  have 1: "BaseBackend_get MemoryBackend ?B ''x'' (3/20)
      = (Inr None, ?B\<lparr>store := ?s, metadata := (if True then (metadata ?B)(''x'' := None) else metadata ?B)\<rparr>)"
    and 2: "BaseBackend_exists MemoryBackend ?B ''x'' (3/20)
      = (Inr False, ?B\<lparr>store := ?s, metadata := (if True then (metadata ?B)(''x'' := None) else metadata ?B)\<rparr>)"
    using t h1 by blast+
  have 3: "\<exists>M'. BaseBackend_get MemoryBackend ?B ''x'' (3/20) = (Inr None, M')
        \<and> store M' ''x'' = None \<and> metadata M' ''x'' = None"
    using t h2 by blast
  have 4: "metadata (snd (BaseBackend_set MemoryBackend ?B ''y'' (Some 7) None 1)) ''x'' = metadata ?B ''x''"
    using t h3 by blast
  have 5: "fst (BaseBackend_get MemoryBackend ?B ''x'' (1/20)) = Inr (Some 42)"
    by (simp add: backend_run_def eval_defs)
  from 3 have 6: "store (snd (BaseBackend_get MemoryBackend ?B ''x'' (3/20))) ''x'' = None
      \<and> metadata (snd (BaseBackend_get MemoryBackend ?B ''x'' (3/20))) ''x'' = None"
    by auto
  show ?thesis
    using 1 2 4 5 6 by (simp only: fst_conv)
qed

section \<open>The size bound on every run\<close>
























end
